theory Spec2Isabelle
  imports Main
begin

section \<open>Payment order lifecycle\<close>

text \<open>
  A shallow embedding of \<^verbatim>\<open>src/services/paymentService.js\<close> (class
  \<^verbatim>\<open>PaymentService\<close>) and of the Mongoose model \<^verbatim>\<open>models/Payment.js\<close>.
  An \<^verbatim>\<open>async\<close> method that may throw after it has written to the database becomes a
  function from the database to a pair: the message of the thrown \<^verbatim>\<open>Error\<close> (\<open>Inl\<close>)
  or the returned object (\<open>Inr\<close>), and the database afterwards. Each call is modelled
  as running alone, from its first read to its last write.
\<close>

subsection \<open>Strings\<close>

text \<open>
  \<^verbatim>\<open>String.prototype.trim\<close> on the ASCII white space characters (tab, line feed,
  vertical tab, form feed, carriage return, space), and \<^verbatim>\<open>toUpperCase\<close> on the ASCII
  letters.
\<close>

definition is_space :: "char \<Rightarrow> bool" where
  "is_space c = (c \<in> set [CHR 0x09, CHR 0x0A, CHR 0x0B, CHR 0x0C, CHR 0x0D, CHR '' ''])"

definition trim :: "string \<Rightarrow> string" where
  "trim s = rev (dropWhile is_space (rev (dropWhile is_space s)))"

definition upper_char :: "char \<Rightarrow> char" where
  "upper_char c =
     (let n = (of_char c :: nat) in if 97 \<le> n \<and> n \<le> 122 then char_of (n - 32) else c)"

definition toUpperCase :: "string \<Rightarrow> string" where
  "toUpperCase s = map upper_char s"

text \<open>\<^verbatim>\<open>Number.prototype.toString(36)\<close> on a non-negative integer.\<close>

definition digit36 :: "nat \<Rightarrow> char" where
  "digit36 d = ''0123456789abcdefghijklmnopqrstuvwxyz'' ! d"

fun toString36 :: "nat \<Rightarrow> string" where
  "toString36 n =
     (if n < 36 then [digit36 n] else toString36 (n div 36) @ [digit36 (n mod 36)])"

declare toString36.simps [simp del]

text \<open>
  JavaScript truthiness of a string that may be \<^verbatim>\<open>undefined\<close>: \<^verbatim>\<open>undefined\<close> and the
  empty string are falsy.
\<close>

fun truthy :: "string option \<Rightarrow> bool" where
  "truthy None = False"
| "truthy (Some s) = (s \<noteq> [])"

subsection \<open>The Payment model\<close>

datatype payment_status = Pending | Completed | Failed | Cancelled

text \<open>
  The fields of \<^verbatim>\<open>paymentSchema\<close> that the service reads or writes. A path that may be
  unset is an option. The amount is a whole number of paise, as in the plan table.
\<close>

record payment =
  userId :: string
  razorpayOrderId :: string
  razorpayPaymentId :: "string option"
  razorpaySignature :: "string option"
  amount :: int
  currency :: string
  status :: payment_status
  planType :: string
  description :: "string option"
  payment_notes :: "(string \<times> string) list"
  failureReason :: "string option"
  webhookEventId :: "string option"

text \<open>
  The User model is not among the sources. Modelled from the spec: the owning user is an
  external collaborator holding a boolean premium flag, and writing true to a flag that
  is already true is a no-op, not an error. The service reads four of its fields.
\<close>

record user =
  email :: string
  firstName :: string
  lastName :: string
  isPremium :: bool

text \<open>
  The database: the payments collection in insertion order, a document being
  identified by its position, and the users keyed by their id.
\<close>

record db =
  payments :: "payment list"
  users :: "string \<rightharpoonup> user"

text \<open>\<^verbatim>\<open>Payment.findOne(query)\<close>: the first document that matches, with its position.\<close>

fun findIndex :: "('a \<Rightarrow> bool) \<Rightarrow> 'a list \<Rightarrow> nat option" where
  "findIndex P [] = None"
| "findIndex P (x # xs) = (if P x then Some 0 else map_option Suc (findIndex P xs))"

definition findOne :: "(payment \<Rightarrow> bool) \<Rightarrow> db \<Rightarrow> (nat \<times> payment) option" where
  "findOne P d =
     (case findIndex P (payments d) of
        None \<Rightarrow> None
      | Some i \<Rightarrow> Some (i, payments d ! i))"

text \<open>\<^verbatim>\<open>User.findById(id)\<close>.\<close>

definition findById :: "db \<Rightarrow> string \<Rightarrow> user option" where
  "findById d uid = users d uid"

text \<open>
  \<^verbatim>\<open>save()\<close> on a document that \<^verbatim>\<open>findOne\<close> returned writes it back in place. The
  \<^verbatim>\<open>pre('save')\<close> hook rescales the amount only when that path was modified, which none
  of the three instance methods does.
\<close>

definition save_payment :: "nat \<Rightarrow> payment \<Rightarrow> db \<Rightarrow> db" where
  "save_payment i p d = d\<lparr>payments := (payments d)[i := p]\<rparr>"

definition save_user :: "string \<Rightarrow> user \<Rightarrow> db \<Rightarrow> db" where
  "save_user uid u d = d\<lparr>users := (users d)(uid \<mapsto> u)\<rparr>"

text \<open>
  The instance methods. The schema trims \<^verbatim>\<open>failureReason\<close> when it is set.
\<close>

definition markCompleted :: "string \<Rightarrow> string option \<Rightarrow> payment \<Rightarrow> payment" where
  "markCompleted paymentId signature p =
     p\<lparr>status := Completed, razorpayPaymentId := Some paymentId, razorpaySignature := signature\<rparr>"

definition markFailed :: "string \<Rightarrow> payment \<Rightarrow> payment" where
  "markFailed reason p = p\<lparr>status := Failed, failureReason := Some (trim reason)\<rparr>"

definition markCancelled :: "payment \<Rightarrow> payment" where
  "markCancelled p = p\<lparr>status := Cancelled\<rparr>"

subsection \<open>The service\<close>

text \<open>
  What the service object holds and calls: the resolved credentials (either may be
  \<^verbatim>\<open>undefined\<close>), Node's \<^verbatim>\<open>crypto.createHmac('sha256', key).update(msg).digest('hex')\<close>
  as a computation on the key and the message that yields the hex digest or throws (it
  does throw when the key is \<^verbatim>\<open>undefined\<close>), the gateway SDK's \<^verbatim>\<open>orders.create\<close>, and
  the clock.
\<close>

record order_options =
  oo_amount :: "int option"
  oo_currency :: "string option"
  oo_receipt :: string
  oo_notes :: "(string \<times> string) list"

record razorpay_order =
  ro_id :: string
  ro_amount :: int
  ro_currency :: string

text \<open>
  A value caught by \<^verbatim>\<open>createOrder\<close>, as \<^verbatim>\<open>formatError\<close> looks at it: its
  \<^verbatim>\<open>message\<close>, its \<^verbatim>\<open>error.description\<close>, its \<^verbatim>\<open>description\<close>, the value itself
  when it is a string, and what \<^verbatim>\<open>JSON.stringify\<close> makes of it (\<open>None\<close> when that
  throws).
\<close>

record thrown =
  t_message :: "string option"
  t_error_description :: "string option"
  t_description :: "string option"
  t_string :: "string option"
  t_json :: "string option"

record service =
  keyId :: "string option"
  keySecret :: "string option"
  hmac_sha256_hex :: "string option \<Rightarrow> string \<Rightarrow> thrown + string"
  orders_create :: "order_options \<Rightarrow> thrown + razorpay_order"
  date_now :: nat

text \<open>\<^verbatim>\<open>new Error(msg)\<close>.\<close>

definition js_Error :: "string \<Rightarrow> thrown" where
  "js_Error msg =
     \<lparr>t_message = Some msg, t_error_description = None, t_description = None,
      t_string = None, t_json = Some ''{}''\<rparr>"

definition formatError :: "thrown \<Rightarrow> string" where
  "formatError e =
     (if truthy (t_message e) then the (t_message e)
      else if truthy (t_error_description e) then the (t_error_description e)
      else if truthy (t_description e) then the (t_description e)
      else (case t_string e of
              Some s \<Rightarrow> s
            | None \<Rightarrow> (case t_json e of Some j \<Rightarrow> j | None \<Rightarrow> ''Unknown error'')))"

text \<open>
  The \<^verbatim>\<open>try\<close> block of \<^verbatim>\<open>verifySignature\<close>: the value thrown inside it, or the
  result of the comparison.
\<close>

definition verifySignature_try ::
  "service \<Rightarrow> string \<Rightarrow> string \<Rightarrow> string \<Rightarrow> thrown + bool" where
  "verifySignature_try svc orderId paymentId signature =
     (let body = orderId @ ''|'' @ paymentId in
      case hmac_sha256_hex svc (keySecret svc) body of
        Inl error \<Rightarrow> Inl error
      | Inr expectedSignature \<Rightarrow> Inr (expectedSignature = signature))"

text \<open>
  \<^verbatim>\<open>verifySignature\<close> itself: the \<^verbatim>\<open>catch\<close> takes whatever the block threw and returns
  false.
\<close>

definition verifySignature :: "service \<Rightarrow> string \<Rightarrow> string \<Rightarrow> string \<Rightarrow> bool" where
  "verifySignature svc orderId paymentId signature =
     (case verifySignature_try svc orderId paymentId signature of
        Inl error \<Rightarrow> False
      | Inr valid \<Rightarrow> valid)"

record payment_data =
  razorpay_order_id :: string
  razorpay_payment_id :: string
  razorpay_signature :: string

record verification =
  vr_success :: bool
  vr_paymentId :: string
  vr_orderId :: string
  vr_planType :: string
  vr_amount :: int
  vr_currency :: string

definition verifyPayment :: "service \<Rightarrow> db \<Rightarrow> payment_data \<Rightarrow> (string + verification) \<times> db" where
  "verifyPayment svc d pd =
     (case findOne (\<lambda>p. razorpayOrderId p = razorpay_order_id pd) d of
        None \<Rightarrow> (Inl (''Payment verification failed: '' @ ''Payment record not found''), d)
      | Some (i, payment) \<Rightarrow>
          if \<not> verifySignature svc (razorpay_order_id pd) (razorpay_payment_id pd)
                 (razorpay_signature pd)
          then (Inl (''Payment verification failed: '' @ ''Payment verification failed''),
                save_payment i (markFailed ''Invalid payment signature'' payment) d)
          else
            (let payment' = markCompleted (razorpay_payment_id pd)
                              (Some (razorpay_signature pd)) payment;
                 d1 = save_payment i payment' d;
                 d2 = (case findById d1 (userId payment') of
                         None \<Rightarrow> d1
                       | Some u \<Rightarrow> save_user (userId payment') (u\<lparr>isPremium := True\<rparr>) d1)
             in (Inr \<lparr>vr_success = True,
                      vr_paymentId = razorpay_payment_id pd,
                      vr_orderId = razorpay_order_id pd,
                      vr_planType = planType payment',
                      vr_amount = amount payment',
                      vr_currency = currency payment'\<rparr>, d2)))"

text \<open>
  \<^verbatim>\<open>handlePaymentFailure(orderId, reason)\<close> returns the updated document.
\<close>

definition handlePaymentFailure :: "db \<Rightarrow> string \<Rightarrow> string \<Rightarrow> (string + payment) \<times> db" where
  "handlePaymentFailure d orderId reason =
     (case findOne (\<lambda>p. razorpayOrderId p = orderId) d of
        None \<Rightarrow> (Inl (''Failed to handle payment failure: '' @ ''Payment record not found''), d)
      | Some (i, payment) \<Rightarrow>
          (let payment' = markFailed reason payment
           in (Inr payment', save_payment i payment' d)))"

definition cancelPayment :: "db \<Rightarrow> string \<Rightarrow> string \<Rightarrow> (string + payment) \<times> db" where
  "cancelPayment d orderId uid =
     (case findOne (\<lambda>p. razorpayOrderId p = orderId \<and> userId p = uid \<and> status p = Pending) d of
        None \<Rightarrow> (Inl (''Failed to cancel payment: '' @ ''Pending payment not found''), d)
      | Some (i, payment) \<Rightarrow>
          (let payment' = markCancelled payment
           in (Inr payment', save_payment i payment' d)))"

subsection \<open>Order creation\<close>

record plan =
  plan_amount :: int
  plan_currency :: string
  plan_description :: string
  plan_duration :: nat

text \<open>The plan table: the own properties of \<^verbatim>\<open>this.plans\<close>.\<close>

definition plans :: "string \<rightharpoonup> plan" where
  "plans =
     [''premium_monthly'' \<mapsto>
        \<lparr>plan_amount = 99900, plan_currency = ''INR'',
         plan_description = ''Premium Monthly Subscription'', plan_duration = 30\<rparr>,
      ''premium_yearly'' \<mapsto>
        \<lparr>plan_amount = 999900, plan_currency = ''INR'',
         plan_description = ''Premium Yearly Subscription'', plan_duration = 365\<rparr>]"

text \<open>
  \<^verbatim>\<open>this.plans[planType]\<close> reads a property of an object literal, so besides the two
  plans of the table it finds the members that every object inherits from
  \<^verbatim>\<open>Object.prototype\<close>. Such a member is truthy and has no \<^verbatim>\<open>amount\<close>, \<^verbatim>\<open>currency\<close>
  or \<^verbatim>\<open>description\<close>.
\<close>

definition object_prototype_keys :: "string list" where
  "object_prototype_keys =
     [''constructor'', ''__defineGetter__'', ''__defineSetter__'', ''hasOwnProperty'',
      ''__lookupGetter__'', ''__lookupSetter__'', ''isPrototypeOf'',
      ''propertyIsEnumerable'', ''toString'', ''valueOf'', ''__proto__'',
      ''toLocaleString'']"

datatype plan_value = Own plan | Inherited

definition plans_lookup :: "string \<Rightarrow> plan_value option" where
  "plans_lookup k =
     (case plans k of
        Some pl \<Rightarrow> Some (Own pl)
      | None \<Rightarrow> if k \<in> set object_prototype_keys then Some Inherited else None)"

fun pv_amount :: "plan_value \<Rightarrow> int option" where
  "pv_amount (Own pl) = Some (plan_amount pl)"
| "pv_amount Inherited = None"

fun pv_currency :: "plan_value \<Rightarrow> string option" where
  "pv_currency (Own pl) = Some (plan_currency pl)"
| "pv_currency Inherited = None"

fun pv_description :: "plan_value \<Rightarrow> string option" where
  "pv_description (Own pl) = Some (plan_description pl)"
| "pv_description Inherited = None"

text \<open>
  \<^verbatim>\<open>generateReceipt(userId)\<close>: \<^verbatim>\<open>slice(-8)\<close> keeps the last eight characters (all of
  a shorter string), \<^verbatim>\<open>slice(0, 40)\<close> the first forty.
\<close>

definition generateReceipt :: "service \<Rightarrow> string \<Rightarrow> string" where
  "generateReceipt svc uid0 =
     (let uid = drop (length uid0 - 8) uid0;
          ts = toString36 (date_now svc);
          receipt = ''r_'' @ uid @ ''_'' @ ts
      in if length receipt > 40 then take 40 receipt else receipt)"

text \<open>
  The object that \<^verbatim>\<open>createOrder\<close> passes to \<^verbatim>\<open>new Payment({...})\<close>, with status
  \<open>pending\<close>; the amount, the currency and the description come from the plan value
  and may be \<^verbatim>\<open>undefined\<close>.
\<close>

record new_payment =
  np_userId :: string
  np_razorpayOrderId :: string
  np_amount :: "int option"
  np_currency :: "string option"
  np_planType :: string
  np_description :: "string option"
  np_notes :: "(string \<times> string) list"

text \<open>
  The document built from it, given its amount: the schema defaults the currency to
  \<open>INR\<close>, its setters upper-case the currency and trim the description, and the paths
  not given stay unset.
\<close>

definition document :: "new_payment \<Rightarrow> int \<Rightarrow> payment" where
  "document np amt =
     \<lparr>userId = np_userId np, razorpayOrderId = np_razorpayOrderId np,
      razorpayPaymentId = None, razorpaySignature = None, amount = amt,
      currency = toUpperCase (case np_currency np of None \<Rightarrow> ''INR'' | Some c \<Rightarrow> c),
      status = Pending, planType = np_planType np,
      description = map_option trim (np_description np),
      payment_notes = np_notes np, failureReason = None, webhookEventId = None\<rparr>"

text \<open>
  The schema's validators, in the order of its paths; each failure contributes
  \<^verbatim>\<open>path: message\<close> to the message of the validation error. A required path rejects
  \<^verbatim>\<open>undefined\<close>, and the empty string when it is a string path.
\<close>

definition validate :: "new_payment \<Rightarrow> string list" where
  "validate np =
     (if np_razorpayOrderId np = [] then [''razorpayOrderId: Razorpay order ID is required'']
      else []) @
     (case np_amount np of
        None \<Rightarrow> [''amount: Amount is required'']
      | Some amt \<Rightarrow> if amt < 0 then [''amount: Amount cannot be negative''] else []) @
     (if np_currency np = Some [] then [''currency: Path `currency` is required.''] else []) @
     (if np_planType np = [] then [''planType: Plan type is required'']
      else if np_planType np \<notin> set [''premium_monthly'', ''premium_yearly'']
      then [''planType: Plan type must be one of: premium_monthly, premium_yearly'']
      else [])"

fun join_comma :: "string list \<Rightarrow> string" where
  "join_comma [] = []"
| "join_comma [x] = x"
| "join_comma (x # y # ys) = x @ '', '' @ join_comma (y # ys)"

text \<open>
  The \<^verbatim>\<open>pre('save')\<close> hook of a new document, whose amount counts as modified: an
  amount strictly between 0 and 1 is multiplied by 100. No whole number is in that
  range.
\<close>

definition pre_save :: "payment \<Rightarrow> payment" where
  "pre_save p = (if 0 < amount p \<and> amount p < 1 then p\<lparr>amount := amount p * 100\<rparr> else p)"

text \<open>
  \<^verbatim>\<open>save()\<close> on a new document: validation, the hook, then the insert, which the
  unique index on \<^verbatim>\<open>razorpayOrderId\<close> refuses when a stored document has the same
  value (the driver's message names the collection and the key; its text is shortened
  here).
\<close>

definition insert_payment :: "new_payment \<Rightarrow> db \<Rightarrow> string + db" where
  "insert_payment np d =
     (let errs = validate np in
      case (errs, np_amount np) of
        ([], Some amt) \<Rightarrow>
          (let p' = pre_save (document np amt) in
           if razorpayOrderId p' \<in> set (map razorpayOrderId (payments d))
           then Inl (''E11000 duplicate key error index: razorpayOrderId_1 dup key: '' @
                      razorpayOrderId p')
           else Inr (d\<lparr>payments := payments d @ [p']\<rparr>))
      | _ \<Rightarrow> Inl (''Payment validation failed: '' @ join_comma errs))"

record order_details =
  od_orderId :: string
  od_amount :: int
  od_currency :: string
  od_planType :: string
  od_description :: "string option"
  od_keyId :: "string option"
  od_user_name :: string
  od_user_email :: string

text \<open>The \<^verbatim>\<open>orderOptions\<close> object sent to the gateway.\<close>

definition orderOptions ::
  "service \<Rightarrow> string \<Rightarrow> string \<Rightarrow> plan_value \<Rightarrow> user \<Rightarrow> order_options" where
  "orderOptions svc uid ptype pl u =
     \<lparr>oo_amount = pv_amount pl,
      oo_currency = pv_currency pl,
      oo_receipt = generateReceipt svc uid,
      oo_notes =
        [(''userId'', uid),
         (''planType'', ptype),
         (''userEmail'', email u),
         (''userName'', trim (firstName u @ '' '' @ lastName u))]\<rparr>"

text \<open>
  The body of the \<^verbatim>\<open>try\<close> block of \<^verbatim>\<open>createOrder\<close>: the value thrown, or the
  returned object and the database after the save. Nothing is written before a throw.
\<close>

definition createOrder_try ::
  "service \<Rightarrow> db \<Rightarrow> string \<Rightarrow> string \<Rightarrow> thrown + order_details \<times> db" where
  "createOrder_try svc d uid ptype =
     (if \<not> truthy (keyId svc) \<or> \<not> truthy (keySecret svc)
      then Inl (js_Error
        ''Razorpay credentials are missing. Set RAZORPAY_KEY_ID and RAZORPAY_KEY_SECRET.'')
      else
        (case plans_lookup ptype of
           None \<Rightarrow> Inl (js_Error ''Invalid plan type'')
         | Some pl \<Rightarrow>
             (case findById d uid of
                None \<Rightarrow> Inl (js_Error ''User not found'')
              | Some u \<Rightarrow>
                  if isPremium u then Inl (js_Error ''User is already premium'')
                  else
                    (case orders_create svc (orderOptions svc uid ptype pl u) of
                       Inl e \<Rightarrow> Inl e
                     | Inr razorpayOrder \<Rightarrow>
                         (case insert_payment
                                 \<lparr>np_userId = uid,
                                  np_razorpayOrderId = ro_id razorpayOrder,
                                  np_amount = pv_amount pl,
                                  np_currency = pv_currency pl,
                                  np_planType = ptype,
                                  np_description = pv_description pl,
                                  np_notes = oo_notes (orderOptions svc uid ptype pl u)\<rparr> d of
                            Inl msg \<Rightarrow> Inl (js_Error msg)
                          | Inr d' \<Rightarrow>
                              Inr (\<lparr>od_orderId = ro_id razorpayOrder,
                                    od_amount = ro_amount razorpayOrder,
                                    od_currency = ro_currency razorpayOrder,
                                    od_planType = ptype,
                                    od_description = pv_description pl,
                                    od_keyId = keyId svc,
                                    od_user_name = firstName u @ '' '' @ lastName u,
                                    od_user_email = email u\<rparr>, d'))))))"

definition createOrder ::
  "service \<Rightarrow> db \<Rightarrow> string \<Rightarrow> string \<Rightarrow> (string + order_details) \<times> db" where
  "createOrder svc d uid ptype =
     (case createOrder_try svc d uid ptype of
        Inl e \<Rightarrow> (Inl (''Failed to create order: '' @ formatError e), d)
      | Inr (details, d') \<Rightarrow> (Inr details, d'))"

subsection \<open>Webhooks\<close>

text \<open>
  The event envelope. \<^verbatim>\<open>payload.payment\<close> and \<^verbatim>\<open>payload.order\<close> may be absent
  (\<open>None\<close>), and so may the \<^verbatim>\<open>entity\<close> inside either (\<open>Some None\<close>); reading through an
  absent one throws a \<^verbatim>\<open>TypeError\<close>. An entity carries its ids as strings.
\<close>

record payment_entity =
  pe_id :: string
  pe_order_id :: string
  pe_error_description :: "string option"

record order_entity =
  oe_id :: string

record webhook_payload =
  payload_payment :: "payment_entity option option"
  payload_order :: "order_entity option option"

record webhook_event =
  event :: string
  payload :: webhook_payload

record webhook_result =
  processed :: bool
  wr_paymentId :: "string option"
  wr_orderId :: "string option"
  wr_event :: "string option"

definition cannot_read :: "string \<Rightarrow> string" where
  "cannot_read prop =
     ''Cannot read properties of undefined (reading '' @ [CHR 0x27] @ prop @ [CHR 0x27] @ '')''"

definition handlePaymentCaptured ::
  "db \<Rightarrow> payment_entity option \<Rightarrow> (string + webhook_result) \<times> db" where
  "handlePaymentCaptured d ent =
     (case ent of
        None \<Rightarrow> (Inl (cannot_read ''order_id''), d)
      | Some paymentEntity \<Rightarrow>
          (let d' =
             (case findOne (\<lambda>p. razorpayOrderId p = pe_order_id paymentEntity) d of
                None \<Rightarrow> d
              | Some (i, payment) \<Rightarrow>
                  if status payment = Pending then
                    (let payment' = markCompleted (pe_id paymentEntity) None payment;
                         d1 = save_payment i payment' d
                     in case findById d1 (userId payment') of
                          None \<Rightarrow> d1
                        | Some u \<Rightarrow>
                            if \<not> isPremium u
                            then save_user (userId payment') (u\<lparr>isPremium := True\<rparr>) d1
                            else d1)
                  else d)
           in (Inr \<lparr>processed = True, wr_paymentId = Some (pe_id paymentEntity),
                    wr_orderId = None, wr_event = None\<rparr>, d')))"

definition handlePaymentFailedWebhook ::
  "db \<Rightarrow> payment_entity option \<Rightarrow> (string + webhook_result) \<times> db" where
  "handlePaymentFailedWebhook d ent =
     (case ent of
        None \<Rightarrow> (Inl (cannot_read ''order_id''), d)
      | Some paymentEntity \<Rightarrow>
          (let d' =
             (case findOne (\<lambda>p. razorpayOrderId p = pe_order_id paymentEntity) d of
                None \<Rightarrow> d
              | Some (i, payment) \<Rightarrow>
                  if status payment = Pending then
                    save_payment i
                      (markFailed
                         (if truthy (pe_error_description paymentEntity)
                          then the (pe_error_description paymentEntity)
                          else ''Payment failed'') payment) d
                  else d)
           in (Inr \<lparr>processed = True, wr_paymentId = Some (pe_id paymentEntity),
                    wr_orderId = None, wr_event = None\<rparr>, d')))"

definition handleOrderPaid ::
  "db \<Rightarrow> order_entity option \<Rightarrow> (string + webhook_result) \<times> db" where
  "handleOrderPaid d ent =
     (case ent of
        None \<Rightarrow> (Inl (cannot_read ''id''), d)
      | Some orderEntity \<Rightarrow>
          (let d' =
             (case findOne (\<lambda>p. razorpayOrderId p = oe_id orderEntity) d of
                None \<Rightarrow> d
              | Some (i, payment) \<Rightarrow>
                  save_payment i (payment\<lparr>webhookEventId := Some (oe_id orderEntity)\<rparr>) d)
           in (Inr \<lparr>processed = True, wr_paymentId = None,
                    wr_orderId = Some (oe_id orderEntity), wr_event = None\<rparr>, d')))"

text \<open>
  \<^verbatim>\<open>handleWebhook(event, signature)\<close>. The signature is not looked at (the check is
  commented out in the source). The \<^verbatim>\<open>catch\<close> prefixes the message of anything thrown
  inside.
\<close>

definition webhook_catch :: "(string + webhook_result) \<times> db \<Rightarrow> (string + webhook_result) \<times> db" where
  "webhook_catch r =
     (case r of
        (Inl msg, d) \<Rightarrow> (Inl (''Webhook processing failed: '' @ msg), d)
      | (Inr res, d) \<Rightarrow> (Inr res, d))"

definition handleWebhook :: "db \<Rightarrow> webhook_event \<Rightarrow> (string + webhook_result) \<times> db" where
  "handleWebhook d ev =
     webhook_catch
       (let eventType = event ev; pl = payload ev in
        if eventType = ''payment.captured'' then
          (case payload_payment pl of
             None \<Rightarrow> (Inl (cannot_read ''entity''), d)
           | Some ent \<Rightarrow> handlePaymentCaptured d ent)
        else if eventType = ''payment.failed'' then
          (case payload_payment pl of
             None \<Rightarrow> (Inl (cannot_read ''entity''), d)
           | Some ent \<Rightarrow> handlePaymentFailedWebhook d ent)
        else if eventType = ''order.paid'' then
          (case payload_order pl of
             None \<Rightarrow> (Inl (cannot_read ''entity''), d)
           | Some ent \<Rightarrow> handleOrderPaid d ent)
        else (Inr \<lparr>processed = False, wr_paymentId = None, wr_orderId = None,
                   wr_event = Some eventType\<rparr>, d))"

subsection \<open>Example data\<close>

text \<open>
  A configured service whose gateway mints the id \<open>order_2\<close> for an order with an
  amount and a currency and rejects any other, and a database with one
  free user, one premium user and one pending order. The digest computation stands in
  for Node's: it throws without a key, as \<^verbatim>\<open>createHmac\<close> does; the theorems hold for
  any.
\<close>

definition example_service :: service where
  "example_service =
     \<lparr>keyId = Some ''rzp_test_key'', keySecret = Some ''s3cret'',
      hmac_sha256_hex =
        (\<lambda>key msg.
           case key of
             None \<Rightarrow> Inl (js_Error ''The key argument must be of type string'')
           | Some k \<Rightarrow> Inr (''mac:'' @ k @ '':'' @ msg)),
      orders_create =
        (\<lambda>opts.
           case (oo_amount opts, oo_currency opts) of
             (Some amt, Some cur) \<Rightarrow>
               Inr \<lparr>ro_id = ''order_2'', ro_amount = amt, ro_currency = cur\<rparr>
           | _ \<Rightarrow>
               Inl \<lparr>t_message = None,
                     t_error_description = Some ''The amount field is required.'',
                     t_description = None, t_string = None, t_json = Some ''{}''\<rparr>),
      date_now = 1700000000000\<rparr>"

definition example_user :: user where
  "example_user =
     \<lparr>email = ''ada@example.com'', firstName = ''Ada'', lastName = ''Lovelace'',
      isPremium = False\<rparr>"

definition example_payment :: payment where
  "example_payment =
     \<lparr>userId = ''u1'', razorpayOrderId = ''order_1'', razorpayPaymentId = None,
      razorpaySignature = None, amount = 99900, currency = ''INR'', status = Pending,
      planType = ''premium_monthly'', description = Some ''Premium Monthly Subscription'',
      payment_notes = [], failureReason = None, webhookEventId = None\<rparr>"

definition example_db :: db where
  "example_db =
     \<lparr>payments = [example_payment],
      users = [''u1'' \<mapsto> example_user, ''u2'' \<mapsto> example_user\<lparr>isPremium := True\<rparr>]\<rparr>"

definition good_proof :: payment_data where
  "good_proof =
     \<lparr>razorpay_order_id = ''order_1'', razorpay_payment_id = ''pay_1'',
      razorpay_signature = ''mac:s3cret:order_1|pay_1''\<rparr>"

definition bad_proof :: payment_data where
  "bad_proof =
     \<lparr>razorpay_order_id = ''order_1'', razorpay_payment_id = ''pay_1'',
      razorpay_signature = ''forged''\<rparr>"

text \<open>A \<open>payment.captured\<close> event for payment \<open>pay_1\<close> of the given order.\<close>

definition captured_event :: "string \<Rightarrow> webhook_event" where
  "captured_event oid =
     \<lparr>event = ''payment.captured'',
      payload = \<lparr>payload_payment =
                   Some (Some \<lparr>pe_id = ''pay_1'', pe_order_id = oid,
                                pe_error_description = None\<rparr>),
                 payload_order = None\<rparr>\<rparr>"

section \<open>Properties\<close>

subsection \<open>Looking documents up\<close>

lemma findIndex_SomeD:
  "findIndex P xs = Some i \<Longrightarrow> i < length xs \<and> P (xs ! i) \<and> (\<forall>j<i. \<not> P (xs ! j))"
proof (induction xs arbitrary: i)
  case Nil
  then show ?case by simp
next
  case (Cons x xs)
  show ?case
  proof (cases "P x")
    case True
    with Cons.prems show ?thesis by simp
  next
    case False
    with Cons.prems obtain k where k: "findIndex P xs = Some k" "i = Suc k"
      by auto
    from Cons.IH [OF k(1)] False k(2) show ?thesis
      by (auto simp: less_Suc_eq_0_disj)
  qed
qed

lemma findIndex_None_iff: "findIndex P xs = None \<longleftrightarrow> (\<forall>x\<in>set xs. \<not> P x)"
  by (induction xs) auto

lemma findIndex_first:
  "i < length xs \<Longrightarrow> P (xs ! i) \<Longrightarrow> \<forall>j<i. \<not> P (xs ! j) \<Longrightarrow> findIndex P xs = Some i"
proof (induction xs arbitrary: i)
  case Nil
  then show ?case by simp
next
  case (Cons x xs)
  show ?case
  proof (cases i)
    case 0
    with Cons.prems show ?thesis by simp
  next
    case (Suc k)
    from Cons.prems Suc have "\<not> P x" by auto
    moreover from Cons.prems Suc have "findIndex P xs = Some k"
      by (intro Cons.IH) auto
    ultimately show ?thesis using Suc by simp
  qed
qed

lemma findIndex_update:
  assumes "findIndex P xs = Some i" and "P y"
  shows "findIndex P (xs[i := y]) = Some i"
proof -
  from findIndex_SomeD [OF assms(1)]
  have "i < length xs" and "\<forall>j<i. \<not> P (xs ! j)" by auto
  then show ?thesis using assms(2) by (intro findIndex_first) auto
qed

lemma findIndex_distinct:
  assumes "distinct (map f xs)" and "i < length xs"
  shows "findIndex (\<lambda>p. f p = f (xs ! i)) xs = Some i"
proof (rule findIndex_first)
  show "i < length xs" by fact
  show "f (xs ! i) = f (xs ! i)" by simp
  show "\<forall>j<i. f (xs ! j) \<noteq> f (xs ! i)"
  proof (intro allI impI)
    fix j assume "j < i"
    with assms have "map f xs ! j \<noteq> map f xs ! i"
      by (auto simp: distinct_conv_nth)
    with \<open>j < i\<close> assms(2) show "f (xs ! j) \<noteq> f (xs ! i)" by simp
  qed
qed

lemma findOne_distinct:
  assumes "distinct (map razorpayOrderId (payments d))" and "i < length (payments d)"
    and "razorpayOrderId (payments d ! i) = oid"
  shows "findOne (\<lambda>p. razorpayOrderId p = oid) d = Some (i, payments d ! i)"
  using findIndex_distinct [OF assms(1,2)] assms(3) by (simp add: findOne_def)

lemma findOne_None_iff:
  "findOne P d = None \<longleftrightarrow> (\<forall>p\<in>set (payments d). \<not> P p)"
proof (cases "findIndex P (payments d)")
  case None
  then show ?thesis by (simp add: findOne_def findIndex_None_iff [symmetric])
next
  case (Some i)
  then have "findIndex P (payments d) \<noteq> None" by simp
  then have "\<not> (\<forall>p\<in>set (payments d). \<not> P p)" by (simp add: findIndex_None_iff)
  with Some show ?thesis by (simp add: findOne_def)
qed

lemma findOne_SomeD:
  assumes "findOne P d = Some (i, p)"
  shows "i < length (payments d) \<and> p = payments d ! i \<and> P p"
proof -
  from assms have "findIndex P (payments d) = Some i" and "p = payments d ! i"
    by (auto simp: findOne_def split: option.splits)
  with findIndex_SomeD [of P "payments d" i] show ?thesis by simp
qed

subsection \<open>Saving documents\<close>

lemma payments_save_user: "payments (save_user k u d) = payments d"
  by (simp add: save_user_def)

lemma payments_save_payment: "payments (save_payment i p d) = (payments d)[i := p]"
  by (simp add: save_payment_def)

lemma ids_save_payment:
  assumes "i < length (payments d)" and "razorpayOrderId p = razorpayOrderId (payments d ! i)"
  shows "map razorpayOrderId (payments (save_payment i p d)) = map razorpayOrderId (payments d)"
  using assms by (simp add: payments_save_payment map_update list_update_same_conv)

lemma markCompleted_idem:
  "markCompleted pid sg (markCompleted pid sg p) = markCompleted pid sg p"
  by (simp add: markCompleted_def)

lemma isPremium_update_triv: "isPremium u \<Longrightarrow> u\<lparr>isPremium := True\<rparr> = u"
  by (cases u) simp

lemma trim_literal: "trim ''Invalid payment signature'' = ''Invalid payment signature''"
  by (simp add: trim_def is_space_def)

lemma pre_save_int: "pre_save p = p"
  by (simp add: pre_save_def)

lemma insert_payment_InrD:
  assumes "insert_payment np d = Inr d'"
  shows "\<exists>amt. np_amount np = Some amt \<and>
           d' = d\<lparr>payments := payments d @ [document np amt]\<rparr> \<and>
           np_razorpayOrderId np \<notin> razorpayOrderId ` set (payments d)"
proof -
  from assms obtain amt where amt: "np_amount np = Some amt" and v: "validate np = []"
    by (auto simp: insert_payment_def Let_def split: list.splits option.splits)
  from assms amt v show ?thesis
    by (auto simp: insert_payment_def pre_save_int document_def Let_def split: if_splits)
qed

lemma insert_payment_Inherited:
  "np_amount np = None \<Longrightarrow> \<exists>msg. insert_payment np d = Inl msg"
  by (simp add: insert_payment_def Let_def split: list.splits)

lemma plans_lookup_Own: "plans_lookup k = Some (Own pl) \<longleftrightarrow> plans k = Some pl"
  by (auto simp: plans_lookup_def split: option.splits)

lemma formatError_js_Error: "formatError (js_Error (c # cs)) = c # cs"
  by (simp add: formatError_def js_Error_def)

lemma snd_webhook_catch: "snd (webhook_catch r) = snd r"
  by (cases r) (simp add: webhook_catch_def split: sum.splits)

lemmas example_defs =
  example_service_def example_user_def example_payment_def example_db_def
  good_proof_def bad_proof_def

subsection \<open>Unique external order ids\<close>

text \<open>
  The unique index keeps the external order ids of the collection distinct: an insert
  that would repeat one is refused, and no other operation of the service writes that
  path. The theorems below about "the record with external order id \<open>O\<close>" assume it.
\<close>

lemma createOrder_ids_distinct:
  assumes "distinct (map razorpayOrderId (payments d))"
  shows "distinct (map razorpayOrderId (payments (snd (createOrder svc d uid ptype))))"
proof (cases "createOrder_try svc d uid ptype")
  case (Inl e)
  with assms show ?thesis by (simp add: createOrder_def)
next
  case (Inr r)
  obtain details d' where r: "r = (details, d')" by (cases r)
  from Inr r obtain np where "insert_payment np d = Inr d'"
    by (auto simp: createOrder_try_def split: if_splits option.splits sum.splits)
  from insert_payment_InrD [OF this] assms
  have "distinct (map razorpayOrderId (payments d'))"
    by (auto simp: document_def)
  with Inr r show ?thesis by (simp add: createOrder_def)
qed

lemma verifyPayment_ids:
  "map razorpayOrderId (payments (snd (verifyPayment svc d pd))) =
   map razorpayOrderId (payments d)"
proof (cases "findOne (\<lambda>p. razorpayOrderId p = razorpay_order_id pd) d")
  case None
  then show ?thesis by (simp add: verifyPayment_def)
next
  case (Some ip)
  obtain i p where ip: "ip = (i, p)" by (cases ip)
  from findOne_SomeD [OF Some [unfolded ip]]
  have "i < length (payments d)" and "p = payments d ! i" by auto
  then have "map razorpayOrderId (payments (save_payment i (markFailed r p) d)) =
      map razorpayOrderId (payments d)"
    and "map razorpayOrderId (payments (save_payment i (markCompleted a b p) d)) =
      map razorpayOrderId (payments d)" for r a b
    by (simp_all add: ids_save_payment markFailed_def markCompleted_def)
  with Some ip show ?thesis
    by (simp add: verifyPayment_def Let_def payments_save_user split: option.splits)
qed

lemma handlePaymentFailure_ids:
  "map razorpayOrderId (payments (snd (handlePaymentFailure d orderId reason))) =
   map razorpayOrderId (payments d)"
proof (cases "findOne (\<lambda>p. razorpayOrderId p = orderId) d")
  case None
  then show ?thesis by (simp add: handlePaymentFailure_def)
next
  case (Some ip)
  obtain i p where ip: "ip = (i, p)" by (cases ip)
  from findOne_SomeD [OF Some [unfolded ip]]
  have "i < length (payments d)" and "p = payments d ! i" by auto
  then have "map razorpayOrderId (payments (save_payment i (markFailed reason p) d)) =
      map razorpayOrderId (payments d)"
    by (simp add: ids_save_payment markFailed_def)
  with Some ip show ?thesis
    by (simp add: handlePaymentFailure_def Let_def)
qed

lemma cancelPayment_ids:
  "map razorpayOrderId (payments (snd (cancelPayment d orderId uid))) =
   map razorpayOrderId (payments d)"
proof (cases "findOne (\<lambda>p. razorpayOrderId p = orderId \<and> userId p = uid \<and> status p = Pending) d")
  case None
  then show ?thesis by (simp add: cancelPayment_def)
next
  case (Some ip)
  obtain i p where ip: "ip = (i, p)" by (cases ip)
  from findOne_SomeD [OF Some [unfolded ip]]
  have "i < length (payments d)" and "p = payments d ! i" by auto
  then have "map razorpayOrderId (payments (save_payment i (markCancelled p) d)) =
      map razorpayOrderId (payments d)"
    by (simp add: ids_save_payment markCancelled_def)
  with Some ip show ?thesis
    by (simp add: cancelPayment_def Let_def)
qed

lemma handleWebhook_ids:
  "map razorpayOrderId (payments (snd (handleWebhook d ev))) =
   map razorpayOrderId (payments d)"
proof -
  have upd: "map razorpayOrderId (payments (save_payment i q d)) =
      map razorpayOrderId (payments d)"
    if "findOne P d = Some (i, p)" and "razorpayOrderId q = razorpayOrderId p" for P i p q
    using findOne_SomeD [OF that(1)] that(2) by (simp add: ids_save_payment)
  have captured: "map razorpayOrderId (payments (snd (handlePaymentCaptured d ent))) =
      map razorpayOrderId (payments d)" for ent
    by (auto simp: handlePaymentCaptured_def Let_def payments_save_user markCompleted_def
        intro!: upd split: option.splits)
  have failed: "map razorpayOrderId (payments (snd (handlePaymentFailedWebhook d ent))) =
      map razorpayOrderId (payments d)" for ent
    by (auto simp: handlePaymentFailedWebhook_def markFailed_def
        intro!: upd split: option.splits)
  have paid: "map razorpayOrderId (payments (snd (handleOrderPaid d ent))) =
      map razorpayOrderId (payments d)" for ent
    by (auto simp: handleOrderPaid_def intro!: upd split: option.splits)
  show ?thesis
    by (simp add: handleWebhook_def snd_webhook_catch Let_def captured failed paid
        split: option.splits)
qed

subsection \<open>The signature verifier\<close>

text \<open>
  Claim C4. \<^verbatim>\<open>verifySignature(orderId, paymentId, signature)\<close> is true exactly when the
  HMAC-SHA256 computation over \<^verbatim>\<open>orderId + '|' + paymentId\<close> under the secret yields a
  hex digest and the signature equals it. Whatever the \<^verbatim>\<open>try\<close> block throws, the
  function returns false: it never passes an error on to its caller.
\<close>

theorem verifySignature_fail_closed:
  "(verifySignature svc orderId paymentId signature \<longleftrightarrow>
      hmac_sha256_hex svc (keySecret svc) (orderId @ ''|'' @ paymentId) = Inr signature) \<and>
   (\<forall>digest. hmac_sha256_hex svc (keySecret svc) (orderId @ ''|'' @ paymentId) = Inr digest
      \<longrightarrow> verifySignature svc orderId paymentId signature = (digest = signature)) \<and>
   (\<forall>e. verifySignature_try svc orderId paymentId signature = Inl e
      \<longrightarrow> verifySignature svc orderId paymentId signature = False) \<and>
   (\<forall>e. hmac_sha256_hex svc (keySecret svc) (orderId @ ''|'' @ paymentId) = Inl e
      \<longrightarrow> verifySignature_try svc orderId paymentId signature = Inl e)"
proof (intro conjI allI impI)
  show "verifySignature svc orderId paymentId signature \<longleftrightarrow>
      hmac_sha256_hex svc (keySecret svc) (orderId @ ''|'' @ paymentId) = Inr signature"
    by (cases "hmac_sha256_hex svc (keySecret svc) (orderId @ ''|'' @ paymentId)")
      (auto simp: verifySignature_def verifySignature_try_def)
next
  fix digest
  assume "hmac_sha256_hex svc (keySecret svc) (orderId @ ''|'' @ paymentId) = Inr digest"
  then show "verifySignature svc orderId paymentId signature = (digest = signature)"
    by (simp add: verifySignature_def verifySignature_try_def)
next
  fix e
  assume "verifySignature_try svc orderId paymentId signature = Inl e"
  then show "verifySignature svc orderId paymentId signature = False"
    by (simp add: verifySignature_def verifySignature_try_def)
next
  fix e
  assume "hmac_sha256_hex svc (keySecret svc) (orderId @ ''|'' @ paymentId) = Inl e"
  then show "verifySignature_try svc orderId paymentId signature = Inl e"
    by (simp add: verifySignature_try_def)
qed

theorem verifySignature_fail_closed_witness:
  "verifySignature example_service ''order_1'' ''pay_1'' ''mac:s3cret:order_1|pay_1'' \<and>
   \<not> verifySignature example_service ''order_1'' ''pay_1'' ''forged'' \<and>
   verifySignature_try (example_service\<lparr>keySecret := None\<rparr>) ''order_1'' ''pay_1''
       ''mac:s3cret:order_1|pay_1'' =
     Inl (js_Error ''The key argument must be of type string'') \<and>
   \<not> verifySignature (example_service\<lparr>keySecret := None\<rparr>) ''order_1'' ''pay_1''
       ''mac:s3cret:order_1|pay_1''"
proof -
  have run: "hmac_sha256_hex example_service (keySecret example_service)
      (''order_1'' @ ''|'' @ ''pay_1'') = Inr ''mac:s3cret:order_1|pay_1''"
    by (simp add: example_defs)
  have thrown: "hmac_sha256_hex (example_service\<lparr>keySecret := None\<rparr>)
      (keySecret (example_service\<lparr>keySecret := None\<rparr>)) (''order_1'' @ ''|'' @ ''pay_1'') =
      Inl (js_Error ''The key argument must be of type string'')"
    by (simp add: example_defs)
  from verifySignature_fail_closed
    [of example_service "''order_1''" "''pay_1''" "''mac:s3cret:order_1|pay_1''"] run
  have "verifySignature example_service ''order_1'' ''pay_1'' ''mac:s3cret:order_1|pay_1''"
    by simp
  moreover from verifySignature_fail_closed
    [of example_service "''order_1''" "''pay_1''" "''forged''"] run
  have "\<not> verifySignature example_service ''order_1'' ''pay_1'' ''forged''"
    by simp
  moreover from verifySignature_fail_closed
    [of "example_service\<lparr>keySecret := None\<rparr>" "''order_1''" "''pay_1''"
        "''mac:s3cret:order_1|pay_1''"] thrown
  have "verifySignature_try (example_service\<lparr>keySecret := None\<rparr>) ''order_1'' ''pay_1''
       ''mac:s3cret:order_1|pay_1'' =
     Inl (js_Error ''The key argument must be of type string'') \<and>
   \<not> verifySignature (example_service\<lparr>keySecret := None\<rparr>) ''order_1'' ''pay_1''
       ''mac:s3cret:order_1|pay_1''"
    by blast
  ultimately show ?thesis by blast
qed

subsection \<open>Client-driven verification\<close>

text \<open>
  Claim C2. For a stored record with external order id \<open>O\<close>, \<^verbatim>\<open>verifyPayment\<close> with a
  signature that does not verify throws \<^verbatim>\<open>Payment verification failed\<close> to the caller
  and has by then saved the record with status \<open>failed\<close> and failure reason
  \<open>Invalid payment signature\<close>; nothing else in the database changes.
\<close>

theorem verifyPayment_invalid_signature:
  assumes "distinct (map razorpayOrderId (payments d))"
    and "i < length (payments d)"
    and "razorpayOrderId (payments d ! i) = razorpay_order_id pd"
    and "\<not> verifySignature svc (razorpay_order_id pd) (razorpay_payment_id pd)
             (razorpay_signature pd)"
  shows "verifyPayment svc d pd =
           (Inl ''Payment verification failed: Payment verification failed'',
            d\<lparr>payments := (payments d)[i := (payments d ! i)
                 \<lparr>status := Failed, failureReason := Some ''Invalid payment signature''\<rparr>]\<rparr>)"
  using assms(4) findOne_distinct [OF assms(1,2,3)]
  by (simp add: verifyPayment_def save_payment_def markFailed_def trim_literal)

theorem verifyPayment_invalid_signature_witness:
  "\<not> verifySignature example_service ''order_1'' ''pay_1'' ''forged'' \<and>
   verifyPayment example_service example_db bad_proof =
     (Inl ''Payment verification failed: Payment verification failed'',
      example_db\<lparr>payments :=
        [example_payment\<lparr>status := Failed,
           failureReason := Some ''Invalid payment signature''\<rparr>]\<rparr>)"
  using verifyPayment_invalid_signature [of example_db 0 bad_proof example_service]
  by (simp add: example_defs verifySignature_def verifySignature_try_def)

text \<open>
  Claim C3. With a signature that verifies, \<^verbatim>\<open>verifyPayment\<close> saves the record with
  status \<open>completed\<close>, the payment id and the signature, sets the premium flag of the
  owning user, and returns success with the payment id, the order id and the plan,
  amount and currency of the record. When no record has the external order id it throws
  \<^verbatim>\<open>Payment record not found\<close> and leaves the database as it was.
\<close>

theorem verifyPayment_valid_signature:
  "(distinct (map razorpayOrderId (payments d)) \<and> i < length (payments d) \<and>
    razorpayOrderId (payments d ! i) = razorpay_order_id pd \<and>
    users d (userId (payments d ! i)) = Some u \<and>
    verifySignature svc (razorpay_order_id pd) (razorpay_payment_id pd) (razorpay_signature pd)
    \<longrightarrow>
    verifyPayment svc d pd =
      (Inr \<lparr>vr_success = True,
            vr_paymentId = razorpay_payment_id pd,
            vr_orderId = razorpayOrderId (payments d ! i),
            vr_planType = planType (payments d ! i),
            vr_amount = amount (payments d ! i),
            vr_currency = currency (payments d ! i)\<rparr>,
       d\<lparr>payments := (payments d)[i := (payments d ! i)
            \<lparr>status := Completed,
             razorpayPaymentId := Some (razorpay_payment_id pd),
             razorpaySignature := Some (razorpay_signature pd)\<rparr>],
         users := (users d)(userId (payments d ! i) \<mapsto> u\<lparr>isPremium := True\<rparr>)\<rparr>)) \<and>
   ((\<forall>p\<in>set (payments d). razorpayOrderId p \<noteq> razorpay_order_id pd) \<longrightarrow>
    verifyPayment svc d pd =
      (Inl ''Payment verification failed: Payment record not found'', d))"
proof (intro conjI impI)
  assume h: "distinct (map razorpayOrderId (payments d)) \<and> i < length (payments d) \<and>
    razorpayOrderId (payments d ! i) = razorpay_order_id pd \<and>
    users d (userId (payments d ! i)) = Some u \<and>
    verifySignature svc (razorpay_order_id pd) (razorpay_payment_id pd) (razorpay_signature pd)"
  then have f: "findOne (\<lambda>p. razorpayOrderId p = razorpay_order_id pd) d = Some (i, payments d ! i)"
    by (intro findOne_distinct) auto
  from h f show "verifyPayment svc d pd =
      (Inr \<lparr>vr_success = True,
            vr_paymentId = razorpay_payment_id pd,
            vr_orderId = razorpayOrderId (payments d ! i),
            vr_planType = planType (payments d ! i),
            vr_amount = amount (payments d ! i),
            vr_currency = currency (payments d ! i)\<rparr>,
       d\<lparr>payments := (payments d)[i := (payments d ! i)
            \<lparr>status := Completed,
             razorpayPaymentId := Some (razorpay_payment_id pd),
             razorpaySignature := Some (razorpay_signature pd)\<rparr>],
         users := (users d)(userId (payments d ! i) \<mapsto> u\<lparr>isPremium := True\<rparr>)\<rparr>)"
    by (simp add: verifyPayment_def save_payment_def save_user_def markCompleted_def
        findById_def Let_def)
next
  assume "\<forall>p\<in>set (payments d). razorpayOrderId p \<noteq> razorpay_order_id pd"
  then have "findOne (\<lambda>p. razorpayOrderId p = razorpay_order_id pd) d = None"
    by (simp add: findOne_None_iff)
  then show "verifyPayment svc d pd =
      (Inl ''Payment verification failed: Payment record not found'', d)"
    by (simp add: verifyPayment_def)
qed

theorem verifyPayment_valid_signature_witness:
  "verifyPayment example_service example_db good_proof =
     (Inr \<lparr>vr_success = True, vr_paymentId = ''pay_1'', vr_orderId = ''order_1'',
           vr_planType = ''premium_monthly'', vr_amount = 99900, vr_currency = ''INR''\<rparr>,
      \<lparr>payments =
         [example_payment\<lparr>status := Completed, razorpayPaymentId := Some ''pay_1'',
            razorpaySignature := Some ''mac:s3cret:order_1|pay_1''\<rparr>],
       users = [''u1'' \<mapsto> example_user\<lparr>isPremium := True\<rparr>,
                ''u2'' \<mapsto> example_user\<lparr>isPremium := True\<rparr>]\<rparr>) \<and>
   verifyPayment example_service example_db (good_proof\<lparr>razorpay_order_id := ''order_9''\<rparr>) =
     (Inl ''Payment verification failed: Payment record not found'', example_db)"
proof -
  have v: "verifySignature example_service ''order_1'' ''pay_1'' ''mac:s3cret:order_1|pay_1''"
    by (simp add: example_defs verifySignature_def verifySignature_try_def)
  have "users example_db ''u1'' = Some example_user"
    by (simp add: example_defs)
  with v have "verifyPayment example_service example_db good_proof =
     (Inr \<lparr>vr_success = True, vr_paymentId = ''pay_1'', vr_orderId = ''order_1'',
           vr_planType = ''premium_monthly'', vr_amount = 99900, vr_currency = ''INR''\<rparr>,
      \<lparr>payments =
         [example_payment\<lparr>status := Completed, razorpayPaymentId := Some ''pay_1'',
            razorpaySignature := Some ''mac:s3cret:order_1|pay_1''\<rparr>],
       users = [''u1'' \<mapsto> example_user\<lparr>isPremium := True\<rparr>,
                ''u2'' \<mapsto> example_user\<lparr>isPremium := True\<rparr>]\<rparr>)"
    using verifyPayment_valid_signature [of example_db 0 good_proof example_user example_service]
    by (simp add: example_defs fun_upd_twist)
  moreover have "verifyPayment example_service example_db
       (good_proof\<lparr>razorpay_order_id := ''order_9''\<rparr>) =
     (Inl ''Payment verification failed: Payment record not found'', example_db)"
    using verifyPayment_valid_signature
      [of example_db 0 "good_proof\<lparr>razorpay_order_id := ''order_9''\<rparr>" example_user example_service]
    by (simp add: example_defs)
  ultimately show ?thesis by simp
qed

text \<open>
  Claim C10. When the record exists and the user it references does not, a signature that
  verifies still completes the record and returns success: the premium flag is skipped
  without an error, and the users are untouched.
\<close>

theorem verifyPayment_missing_user:
  assumes "distinct (map razorpayOrderId (payments d))"
    and "i < length (payments d)"
    and "razorpayOrderId (payments d ! i) = razorpay_order_id pd"
    and "users d (userId (payments d ! i)) = None"
    and "verifySignature svc (razorpay_order_id pd) (razorpay_payment_id pd)
           (razorpay_signature pd)"
  shows "verifyPayment svc d pd =
      (Inr \<lparr>vr_success = True,
            vr_paymentId = razorpay_payment_id pd,
            vr_orderId = razorpayOrderId (payments d ! i),
            vr_planType = planType (payments d ! i),
            vr_amount = amount (payments d ! i),
            vr_currency = currency (payments d ! i)\<rparr>,
       d\<lparr>payments := (payments d)[i := (payments d ! i)
            \<lparr>status := Completed,
             razorpayPaymentId := Some (razorpay_payment_id pd),
             razorpaySignature := Some (razorpay_signature pd)\<rparr>]\<rparr>)"
  using assms(3,4,5) findOne_distinct [OF assms(1,2,3)]
  by (simp add: verifyPayment_def save_payment_def markCompleted_def findById_def Let_def)

theorem verifyPayment_missing_user_witness:
  "users (example_db\<lparr>users := Map.empty\<rparr>) ''u1'' = None \<and>
   verifyPayment example_service (example_db\<lparr>users := Map.empty\<rparr>) good_proof =
     (Inr \<lparr>vr_success = True, vr_paymentId = ''pay_1'', vr_orderId = ''order_1'',
           vr_planType = ''premium_monthly'', vr_amount = 99900, vr_currency = ''INR''\<rparr>,
      \<lparr>payments =
         [example_payment\<lparr>status := Completed, razorpayPaymentId := Some ''pay_1'',
            razorpaySignature := Some ''mac:s3cret:order_1|pay_1''\<rparr>],
       users = Map.empty\<rparr>)"
  using verifyPayment_missing_user
    [of "example_db\<lparr>users := Map.empty\<rparr>" 0 good_proof example_service]
  by (simp add: example_defs verifySignature_def verifySignature_try_def)

text \<open>
  Claim C8. A successful \<^verbatim>\<open>verifyPayment\<close> can be repeated: called again with the same
  arguments on the database it left, it returns the same success result and leaves that
  database exactly as it is (status, payment id, signature and premium flag included).
\<close>

theorem verifyPayment_idempotent:
  assumes "verifyPayment svc d pd = (Inr res, d')"
  shows "verifyPayment svc d' pd = (Inr res, d')"
proof -
  let ?P = "\<lambda>p. razorpayOrderId p = razorpay_order_id pd"
  let ?c = "markCompleted (razorpay_payment_id pd) (Some (razorpay_signature pd))"
  from assms obtain i p where f: "findOne ?P d = Some (i, p)"
    by (auto simp: verifyPayment_def split: option.splits)
  from assms f have v: "verifySignature svc (razorpay_order_id pd) (razorpay_payment_id pd)
      (razorpay_signature pd)"
    by (auto simp: verifyPayment_def split: if_splits)
  from f have fi: "findIndex ?P (payments d) = Some i" and p: "p = payments d ! i"
    by (auto simp: findOne_def split: option.splits)
  from findIndex_SomeD [OF fi] have i: "i < length (payments d)" and Pp: "?P (payments d ! i)"
    by auto
  define d1 where "d1 = save_payment i (?c p) d"
  have ps1: "payments d1 = (payments d)[i := ?c p]" and us1: "users d1 = users d"
    by (simp_all add: d1_def save_payment_def)
  have uid: "userId (?c p) = userId p"
    by (simp add: markCompleted_def)
  have res: "res = \<lparr>vr_success = True, vr_paymentId = razorpay_payment_id pd,
      vr_orderId = razorpay_order_id pd, vr_planType = planType (?c p),
      vr_amount = amount (?c p), vr_currency = currency (?c p)\<rparr>"
    and d': "d' = (case users d (userId p) of None \<Rightarrow> d1
                   | Some u \<Rightarrow> save_user (userId p) (u\<lparr>isPremium := True\<rparr>) d1)"
    using assms f v
    by (auto simp: verifyPayment_def Let_def d1_def findById_def uid save_payment_def
        split: option.splits)
  have ps': "payments d' = (payments d)[i := ?c p]"
    by (simp add: d' ps1 save_user_def split: option.splits)
  have "?P (?c p)"
    using Pp p by (simp add: markCompleted_def)
  from findIndex_update [OF fi this] i
  have f': "findOne ?P d' = Some (i, ?c p)"
    by (simp add: findOne_def ps')
  have sp: "save_payment i (?c p) d' = d'"
    by (simp add: save_payment_def ps' markCompleted_idem)
  have us: "(case users d' (userId p) of None \<Rightarrow> d'
             | Some u \<Rightarrow> save_user (userId p) (u\<lparr>isPremium := True\<rparr>) d') = d'"
  proof (cases "users d (userId p)")
    case None
    then show ?thesis by (simp add: d' us1)
  next
    case (Some u)
    then have "d' = d1\<lparr>users := (users d)(userId p \<mapsto> u\<lparr>isPremium := True\<rparr>)\<rparr>"
      by (simp add: d' save_user_def us1)
    then show ?thesis by (simp add: save_user_def)
  qed
  show ?thesis
    using f' v us
    by (simp add: verifyPayment_def Let_def markCompleted_idem sp findById_def uid res
        cong: option.case_cong)
qed

theorem verifyPayment_idempotent_witness:
  "verifyPayment example_service example_db good_proof =
     (Inr \<lparr>vr_success = True, vr_paymentId = ''pay_1'', vr_orderId = ''order_1'',
           vr_planType = ''premium_monthly'', vr_amount = 99900, vr_currency = ''INR''\<rparr>,
      \<lparr>payments =
         [example_payment\<lparr>status := Completed, razorpayPaymentId := Some ''pay_1'',
            razorpaySignature := Some ''mac:s3cret:order_1|pay_1''\<rparr>],
       users = [''u1'' \<mapsto> example_user\<lparr>isPremium := True\<rparr>,
                ''u2'' \<mapsto> example_user\<lparr>isPremium := True\<rparr>]\<rparr>) \<and>
   verifyPayment example_service
     \<lparr>payments =
         [example_payment\<lparr>status := Completed, razorpayPaymentId := Some ''pay_1'',
            razorpaySignature := Some ''mac:s3cret:order_1|pay_1''\<rparr>],
       users = [''u1'' \<mapsto> example_user\<lparr>isPremium := True\<rparr>,
                ''u2'' \<mapsto> example_user\<lparr>isPremium := True\<rparr>]\<rparr> good_proof =
     (Inr \<lparr>vr_success = True, vr_paymentId = ''pay_1'', vr_orderId = ''order_1'',
           vr_planType = ''premium_monthly'', vr_amount = 99900, vr_currency = ''INR''\<rparr>,
      \<lparr>payments =
         [example_payment\<lparr>status := Completed, razorpayPaymentId := Some ''pay_1'',
            razorpaySignature := Some ''mac:s3cret:order_1|pay_1''\<rparr>],
       users = [''u1'' \<mapsto> example_user\<lparr>isPremium := True\<rparr>,
                ''u2'' \<mapsto> example_user\<lparr>isPremium := True\<rparr>]\<rparr>)"
proof -
  have first: "verifyPayment example_service example_db good_proof =
     (Inr \<lparr>vr_success = True, vr_paymentId = ''pay_1'', vr_orderId = ''order_1'',
           vr_planType = ''premium_monthly'', vr_amount = 99900, vr_currency = ''INR''\<rparr>,
      \<lparr>payments =
         [example_payment\<lparr>status := Completed, razorpayPaymentId := Some ''pay_1'',
            razorpaySignature := Some ''mac:s3cret:order_1|pay_1''\<rparr>],
       users = [''u1'' \<mapsto> example_user\<lparr>isPremium := True\<rparr>,
                ''u2'' \<mapsto> example_user\<lparr>isPremium := True\<rparr>]\<rparr>)"
    by (simp add: example_defs verifyPayment_def verifySignature_def verifySignature_try_def findOne_def
        save_payment_def save_user_def markCompleted_def findById_def Let_def fun_upd_twist)
  from verifyPayment_idempotent [OF first] first show ?thesis
    by simp
qed

subsection \<open>Order creation\<close>

text \<open>
  A plan id that is not in the table never yields an order: it is refused as invalid,
  or, for a member inherited from \<^verbatim>\<open>Object.prototype\<close>, the call fails at a later
  check, at the gateway or at the validation of the new document, which has no amount.
\<close>

lemma createOrder_outside_table:
  assumes "plans ptype = None"
  shows "\<exists>msg. createOrder svc d uid ptype = (Inl msg, d)"
proof -
  have "createOrder_try svc d uid ptype \<noteq> Inr r" for r
  proof
    assume t: "createOrder_try svc d uid ptype = Inr r"
    then obtain pv where pv: "plans_lookup ptype = Some pv"
      by (auto simp: createOrder_try_def split: if_splits option.splits)
    with assms have "pv_amount pv = None"
      by (auto simp: plans_lookup_def split: if_splits)
    moreover from t pv obtain np d' where "insert_payment np d = Inr d'"
      and "np_amount np = pv_amount pv"
      by (auto simp: createOrder_try_def split: if_splits option.splits sum.splits)
    ultimately show False
      using insert_payment_Inherited [of np d] by auto
  qed
  then obtain e where "createOrder_try svc d uid ptype = Inl e"
    by (cases "createOrder_try svc d uid ptype") auto
  then show ?thesis
    by (simp add: createOrder_def)
qed

text \<open>
  Claim C6. A successful \<^verbatim>\<open>createOrder\<close> had a plan of the catalog, an existing user
  who was not premium and an order minted by the gateway for this call's options. It
  appends exactly one record to the collection and changes nothing else; the record is
  pending, its amount is the catalog's amount for the plan, and its external order id is
  the minted one, which no record stored before carries.
\<close>

theorem createOrder_success:
  assumes "createOrder svc d uid ptype = (Inr details, d')"
  shows "\<exists>pl u ro p.
           plans ptype = Some pl \<and> users d uid = Some u \<and> \<not> isPremium u \<and>
           orders_create svc (orderOptions svc uid ptype (Own pl) u) = Inr ro \<and>
           payments d' = payments d @ [p] \<and> users d' = users d \<and>
           status p = Pending \<and> amount p = plan_amount pl \<and>
           userId p = uid \<and> planType p = ptype \<and>
           razorpayOrderId p = ro_id ro \<and> od_orderId details = ro_id ro \<and>
           razorpayOrderId p \<notin> razorpayOrderId ` set (payments d)"
proof -
  from assms have t: "createOrder_try svc d uid ptype = Inr (details, d')"
    by (auto simp: createOrder_def split: sum.splits)
  then obtain pv where pv: "plans_lookup ptype = Some pv"
    by (auto simp: createOrder_try_def split: if_splits option.splits)
  from t pv obtain u where u: "users d uid = Some u" "\<not> isPremium u"
    by (auto simp: createOrder_try_def findById_def split: if_splits option.splits)
  from t pv u obtain ro where ro: "orders_create svc (orderOptions svc uid ptype pv u) = Inr ro"
    by (auto simp: createOrder_try_def findById_def split: if_splits sum.splits)
  let ?np = "\<lparr>np_userId = uid, np_razorpayOrderId = ro_id ro, np_amount = pv_amount pv,
              np_currency = pv_currency pv, np_planType = ptype,
              np_description = pv_description pv,
              np_notes = oo_notes (orderOptions svc uid ptype pv u)\<rparr>"
  from t pv u ro have ins: "insert_payment ?np d = Inr d'"
    and det: "od_orderId details = ro_id ro"
    by (auto simp: createOrder_try_def findById_def split: if_splits sum.splits)
  from insert_payment_InrD [OF ins] obtain amt where
    amt: "pv_amount pv = Some amt"
    and d': "d' = d\<lparr>payments := payments d @ [document ?np amt]\<rparr>"
    and fresh: "ro_id ro \<notin> razorpayOrderId ` set (payments d)"
    by auto
  from amt obtain pl where own: "pv = Own pl" and a: "amt = plan_amount pl"
    by (cases pv) auto
  from pv own have pl: "plans ptype = Some pl"
    by (simp add: plans_lookup_Own)
  let ?p = "document ?np amt"
  have "payments d' = payments d @ [?p]" "users d' = users d"
    by (simp_all add: d')
  moreover have "status ?p = Pending" "amount ?p = plan_amount pl" "userId ?p = uid"
    "planType ?p = ptype" "razorpayOrderId ?p = ro_id ro"
    by (simp_all add: document_def a)
  moreover from fresh have "razorpayOrderId ?p \<notin> razorpayOrderId ` set (payments d)"
    by (simp add: document_def)
  ultimately show ?thesis
    using pl u ro [unfolded own] det by blast
qed

theorem createOrder_success_witness:
  "createOrder example_service example_db ''u1'' ''premium_yearly'' =
     (Inr \<lparr>od_orderId = ''order_2'', od_amount = 999900, od_currency = ''INR'',
           od_planType = ''premium_yearly'',
           od_description = Some ''Premium Yearly Subscription'',
           od_keyId = Some ''rzp_test_key'', od_user_name = ''Ada Lovelace'',
           od_user_email = ''ada@example.com''\<rparr>,
      example_db\<lparr>payments :=
        [example_payment,
         \<lparr>userId = ''u1'', razorpayOrderId = ''order_2'', razorpayPaymentId = None,
          razorpaySignature = None, amount = 999900, currency = ''INR'', status = Pending,
          planType = ''premium_yearly'',
          description = Some ''Premium Yearly Subscription'',
          payment_notes =
            [(''userId'', ''u1''), (''planType'', ''premium_yearly''),
             (''userEmail'', ''ada@example.com''), (''userName'', ''Ada Lovelace'')],
          failureReason = None, webhookEventId = None\<rparr>]\<rparr>) \<and>
   (\<exists>p. payments (snd (createOrder example_service example_db ''u1'' ''premium_yearly'')) =
          payments example_db @ [p] \<and>
        status p = Pending \<and> amount p = 999900 \<and> razorpayOrderId p = ''order_2'' \<and>
        razorpayOrderId p \<notin> razorpayOrderId ` set (payments example_db))"
proof -
  have run: "createOrder example_service example_db ''u1'' ''premium_yearly'' =
     (Inr \<lparr>od_orderId = ''order_2'', od_amount = 999900, od_currency = ''INR'',
           od_planType = ''premium_yearly'',
           od_description = Some ''Premium Yearly Subscription'',
           od_keyId = Some ''rzp_test_key'', od_user_name = ''Ada Lovelace'',
           od_user_email = ''ada@example.com''\<rparr>,
      example_db\<lparr>payments :=
        [example_payment,
         \<lparr>userId = ''u1'', razorpayOrderId = ''order_2'', razorpayPaymentId = None,
          razorpaySignature = None, amount = 999900, currency = ''INR'', status = Pending,
          planType = ''premium_yearly'',
          description = Some ''Premium Yearly Subscription'',
          payment_notes =
            [(''userId'', ''u1''), (''planType'', ''premium_yearly''),
             (''userEmail'', ''ada@example.com''), (''userName'', ''Ada Lovelace'')],
          failureReason = None, webhookEventId = None\<rparr>]\<rparr>)"
    by (simp add: example_defs createOrder_def createOrder_try_def plans_lookup_def plans_def
        findById_def orderOptions_def insert_payment_def document_def validate_def
        pre_save_def trim_def is_space_def toUpperCase_def upper_char_def Let_def)
  from createOrder_success [OF run] obtain pl u ro p where
    "plans ''premium_yearly'' = Some pl"
    "payments (example_db\<lparr>payments :=
        [example_payment,
         \<lparr>userId = ''u1'', razorpayOrderId = ''order_2'', razorpayPaymentId = None,
          razorpaySignature = None, amount = 999900, currency = ''INR'', status = Pending,
          planType = ''premium_yearly'',
          description = Some ''Premium Yearly Subscription'',
          payment_notes =
            [(''userId'', ''u1''), (''planType'', ''premium_yearly''),
             (''userEmail'', ''ada@example.com''), (''userName'', ''Ada Lovelace'')],
          failureReason = None, webhookEventId = None\<rparr>]\<rparr>) = payments example_db @ [p]"
    "status p = Pending" "amount p = plan_amount pl" "razorpayOrderId p = ''order_2''"
    "razorpayOrderId p \<notin> razorpayOrderId ` set (payments example_db)"
    by auto
  moreover from this(1) have "plan_amount pl = 999900"
    by (auto simp: plans_def)
  ultimately have "\<exists>p. payments (snd (createOrder example_service example_db ''u1'' ''premium_yearly'')) =
          payments example_db @ [p] \<and>
        status p = Pending \<and> amount p = 999900 \<and> razorpayOrderId p = ''order_2'' \<and>
        razorpayOrderId p \<notin> razorpayOrderId ` set (payments example_db)"
    unfolding run by (intro exI [of _ p]) simp
  with run show ?thesis by blast
qed

text \<open>
  Claim C7. For a user whose premium flag is already true, \<^verbatim>\<open>createOrder\<close> fails and
  leaves the database unchanged, whatever the plan id. The checks run in the order
  credentials, plan, user, premium. With the credentials configured, the failure is
  \<^verbatim>\<open>User is already premium\<close> exactly when \<^verbatim>\<open>this.plans[planType]\<close> is truthy (a plan
  of the table, or a member inherited from \<^verbatim>\<open>Object.prototype\<close> such as
  \<open>constructor\<close>), and \<^verbatim>\<open>Invalid plan type\<close> for every other plan id; without them it is
  the missing-credentials error. So the error is not \<^verbatim>\<open>User is already premium\<close> for
  every plan id.
\<close>

theorem createOrder_already_premium:
  assumes "users d uid = Some u" and "isPremium u"
  shows "snd (createOrder svc d uid ptype) = d \<and>
         fst (createOrder svc d uid ptype) =
           Inl (''Failed to create order: '' @
                (if \<not> truthy (keyId svc) \<or> \<not> truthy (keySecret svc)
                 then ''Razorpay credentials are missing. Set RAZORPAY_KEY_ID and RAZORPAY_KEY_SECRET.''
                 else if plans_lookup ptype = None then ''Invalid plan type''
                 else ''User is already premium''))"
proof -
  have "createOrder_try svc d uid ptype =
      Inl (js_Error
        (if \<not> truthy (keyId svc) \<or> \<not> truthy (keySecret svc)
         then ''Razorpay credentials are missing. Set RAZORPAY_KEY_ID and RAZORPAY_KEY_SECRET.''
         else if plans_lookup ptype = None then ''Invalid plan type''
         else ''User is already premium''))"
    using assms by (auto simp: createOrder_try_def findById_def split: option.splits)
  then show ?thesis
    by (simp add: createOrder_def formatError_js_Error)
qed

theorem createOrder_already_premium_witness:
  "createOrder example_service example_db ''u2'' ''premium_monthly'' =
     (Inl ''Failed to create order: User is already premium'', example_db) \<and>
   createOrder example_service example_db ''u2'' ''constructor'' =
     (Inl ''Failed to create order: User is already premium'', example_db) \<and>
   createOrder example_service example_db ''u2'' ''premium_weekly'' =
     (Inl ''Failed to create order: Invalid plan type'', example_db)"
proof -
  have u: "users example_db ''u2'' = Some (example_user\<lparr>isPremium := True\<rparr>)"
    and p: "isPremium (example_user\<lparr>isPremium := True\<rparr>)"
    and k: "truthy (keyId example_service)" "truthy (keySecret example_service)"
    by (simp_all add: example_defs)
  have l: "plans_lookup ''premium_monthly'' \<noteq> None" "plans_lookup ''constructor'' \<noteq> None"
    "plans_lookup ''premium_weekly'' = None"
    by (simp_all add: plans_lookup_def plans_def object_prototype_keys_def)
  from createOrder_already_premium [OF u p, of example_service "''premium_monthly''"]
    createOrder_already_premium [OF u p, of example_service "''constructor''"]
    createOrder_already_premium [OF u p, of example_service "''premium_weekly''"] k l
  show ?thesis
    by (simp add: prod_eq_iff)
qed

theorem createOrder_already_premium_unknown_plan:
  "users example_db ''u2'' = Some (example_user\<lparr>isPremium := True\<rparr>) \<and>
   isPremium (example_user\<lparr>isPremium := True\<rparr>) \<and>
   createOrder example_service example_db ''u2'' ''premium_weekly'' =
     (Inl ''Failed to create order: Invalid plan type'', example_db) \<and>
   fst (createOrder example_service example_db ''u2'' ''premium_weekly'') \<noteq>
     Inl ''Failed to create order: User is already premium''"
  by (simp add: example_defs createOrder_def createOrder_try_def plans_lookup_def plans_def
      object_prototype_keys_def formatError_js_Error)

subsection \<open>Webhook reconciliation\<close>

text \<open>
  Claim C9. An event whose type is none of \<open>payment.captured\<close>, \<open>payment.failed\<close> and
  \<open>order.paid\<close> is answered with \<open>processed: false\<close> and the event type, without an
  error, and the database is unchanged.
\<close>

theorem handleWebhook_unknown_event:
  assumes "event ev \<notin> {''payment.captured'', ''payment.failed'', ''order.paid''}"
  shows "handleWebhook d ev =
           (Inr \<lparr>processed = False, wr_paymentId = None, wr_orderId = None,
                 wr_event = Some (event ev)\<rparr>, d)"
  using assms by (simp add: handleWebhook_def webhook_catch_def Let_def)

theorem handleWebhook_unknown_event_witness:
  "handleWebhook example_db
     \<lparr>event = ''refund.created'',
      payload = \<lparr>payload_payment = None, payload_order = None\<rparr>\<rparr> =
   (Inr \<lparr>processed = False, wr_paymentId = None, wr_orderId = None,
         wr_event = Some ''refund.created''\<rparr>, example_db)"
  using handleWebhook_unknown_event
    [of "\<lparr>event = ''refund.created'',
          payload = \<lparr>payload_payment = None, payload_order = None\<rparr>\<rparr>" example_db]
  by simp

text \<open>
  Claim C5. A \<open>payment.captured\<close> event is matched by the order id of its payment
  entity, \<^verbatim>\<open>payload.payment.entity.order_id\<close>. A matching pending record is saved as
  completed with the entity's payment id and no signature, and the owning user, when
  there is one, has the premium flag set. A matching record that is not pending, or no
  matching record, leaves the database unchanged. Each case returns \<open>processed: true\<close>.
  The order id is not read from \<^verbatim>\<open>payload.payment.order_id\<close>: a payment object that
  carries it there and has no \<^verbatim>\<open>entity\<close> makes the handler throw, and a pending record
  with that id stays pending.
\<close>

theorem handleWebhook_payment_captured:
  assumes "event ev = ''payment.captured''"
    and "payload_payment (payload ev) = Some (Some pe)"
  shows
   "(distinct (map razorpayOrderId (payments d)) \<and> i < length (payments d) \<and>
     razorpayOrderId (payments d ! i) = pe_order_id pe \<and> status (payments d ! i) = Pending
     \<longrightarrow>
     handleWebhook d ev =
       (Inr \<lparr>processed = True, wr_paymentId = Some (pe_id pe), wr_orderId = None,
             wr_event = None\<rparr>,
        d\<lparr>payments := (payments d)[i := (payments d ! i)
             \<lparr>status := Completed, razorpayPaymentId := Some (pe_id pe),
              razorpaySignature := None\<rparr>],
          users := (case users d (userId (payments d ! i)) of
                      None \<Rightarrow> users d
                    | Some u \<Rightarrow> (users d)(userId (payments d ! i) \<mapsto> u\<lparr>isPremium := True\<rparr>))\<rparr>)) \<and>
    (distinct (map razorpayOrderId (payments d)) \<and> i < length (payments d) \<and>
     razorpayOrderId (payments d ! i) = pe_order_id pe \<and> status (payments d ! i) \<noteq> Pending
     \<longrightarrow>
     handleWebhook d ev =
       (Inr \<lparr>processed = True, wr_paymentId = Some (pe_id pe), wr_orderId = None,
             wr_event = None\<rparr>, d)) \<and>
    ((\<forall>p\<in>set (payments d). razorpayOrderId p \<noteq> pe_order_id pe) \<longrightarrow>
     handleWebhook d ev =
       (Inr \<lparr>processed = True, wr_paymentId = Some (pe_id pe), wr_orderId = None,
             wr_event = None\<rparr>, d))"
proof -
  let ?res = "\<lparr>processed = True, wr_paymentId = Some (pe_id pe), wr_orderId = None,
             wr_event = None\<rparr>"
  have hw: "handleWebhook d ev = handlePaymentCaptured d (Some pe)"
    using assms
    by (simp add: handleWebhook_def webhook_catch_def handlePaymentCaptured_def Let_def)
  have pending: "handlePaymentCaptured d (Some pe) =
       (Inr ?res,
        d\<lparr>payments := (payments d)[i := (payments d ! i)
             \<lparr>status := Completed, razorpayPaymentId := Some (pe_id pe),
              razorpaySignature := None\<rparr>],
          users := (case users d (userId (payments d ! i)) of
                      None \<Rightarrow> users d
                    | Some u \<Rightarrow> (users d)(userId (payments d ! i) \<mapsto> u\<lparr>isPremium := True\<rparr>))\<rparr>)"
    if h: "distinct (map razorpayOrderId (payments d)) \<and> i < length (payments d) \<and>
     razorpayOrderId (payments d ! i) = pe_order_id pe \<and> status (payments d ! i) = Pending"
  proof -
    from h have f: "findOne (\<lambda>p. razorpayOrderId p = pe_order_id pe) d = Some (i, payments d ! i)"
      by (intro findOne_distinct) auto
    show ?thesis
    proof (cases "users d (userId (payments d ! i))")
      case None
      with h f show ?thesis
        by (simp add: handlePaymentCaptured_def save_payment_def markCompleted_def
            findById_def Let_def)
    next
      case (Some u)
      show ?thesis
      proof (cases "isPremium u")
        case True
        then have "(users d)(userId (payments d ! i) \<mapsto> u\<lparr>isPremium := True\<rparr>) = users d"
          using Some by (simp add: isPremium_update_triv fun_upd_idem_iff)
        with h f Some True show ?thesis
          by (simp add: handlePaymentCaptured_def save_payment_def markCompleted_def
              findById_def Let_def)
      next
        case False
        with h f Some show ?thesis
          by (simp add: handlePaymentCaptured_def save_payment_def save_user_def
              markCompleted_def findById_def Let_def)
      qed
    qed
  qed
  have settled: "handlePaymentCaptured d (Some pe) = (Inr ?res, d)"
    if h: "distinct (map razorpayOrderId (payments d)) \<and> i < length (payments d) \<and>
     razorpayOrderId (payments d ! i) = pe_order_id pe \<and> status (payments d ! i) \<noteq> Pending"
  proof -
    from h have f: "findOne (\<lambda>p. razorpayOrderId p = pe_order_id pe) d = Some (i, payments d ! i)"
      by (intro findOne_distinct) auto
    with h show ?thesis
      by (simp add: handlePaymentCaptured_def)
  qed
  have unmatched: "handlePaymentCaptured d (Some pe) = (Inr ?res, d)"
    if h: "\<forall>p\<in>set (payments d). razorpayOrderId p \<noteq> pe_order_id pe"
  proof -
    from h have "findOne (\<lambda>p. razorpayOrderId p = pe_order_id pe) d = None"
      by (simp add: findOne_None_iff)
    then show ?thesis
      by (simp add: handlePaymentCaptured_def)
  qed
  from pending settled unmatched show ?thesis
    unfolding hw by blast
qed

theorem handleWebhook_payment_captured_witness:
  "handleWebhook example_db (captured_event ''order_1'') =
     (Inr \<lparr>processed = True, wr_paymentId = Some ''pay_1'', wr_orderId = None,
           wr_event = None\<rparr>,
      \<lparr>payments =
         [example_payment\<lparr>status := Completed, razorpayPaymentId := Some ''pay_1''\<rparr>],
       users = [''u1'' \<mapsto> example_user\<lparr>isPremium := True\<rparr>,
                ''u2'' \<mapsto> example_user\<lparr>isPremium := True\<rparr>]\<rparr>) \<and>
   handleWebhook (example_db\<lparr>payments := [example_payment\<lparr>status := Cancelled\<rparr>]\<rparr>)
       (captured_event ''order_1'') =
     (Inr \<lparr>processed = True, wr_paymentId = Some ''pay_1'', wr_orderId = None,
           wr_event = None\<rparr>,
      example_db\<lparr>payments := [example_payment\<lparr>status := Cancelled\<rparr>]\<rparr>) \<and>
   handleWebhook example_db (captured_event ''order_9'') =
     (Inr \<lparr>processed = True, wr_paymentId = Some ''pay_1'', wr_orderId = None,
           wr_event = None\<rparr>, example_db)"
proof -
  let ?pe = "\<lambda>oid. \<lparr>pe_id = ''pay_1'', pe_order_id = oid, pe_error_description = None\<rparr>"
  have ev: "event (captured_event oid) = ''payment.captured''"
    "payload_payment (payload (captured_event oid)) = Some (Some (?pe oid))" for oid
    by (simp_all add: captured_event_def)
  have "handleWebhook example_db (captured_event ''order_1'') =
     (Inr \<lparr>processed = True, wr_paymentId = Some ''pay_1'', wr_orderId = None,
           wr_event = None\<rparr>,
      \<lparr>payments =
         [example_payment\<lparr>status := Completed, razorpayPaymentId := Some ''pay_1''\<rparr>],
       users = [''u1'' \<mapsto> example_user\<lparr>isPremium := True\<rparr>,
                ''u2'' \<mapsto> example_user\<lparr>isPremium := True\<rparr>]\<rparr>)"
    using handleWebhook_payment_captured [OF ev, of example_db 0]
    by (simp add: example_defs fun_upd_twist)
  moreover have "handleWebhook (example_db\<lparr>payments := [example_payment\<lparr>status := Cancelled\<rparr>]\<rparr>)
       (captured_event ''order_1'') =
     (Inr \<lparr>processed = True, wr_paymentId = Some ''pay_1'', wr_orderId = None,
           wr_event = None\<rparr>,
      example_db\<lparr>payments := [example_payment\<lparr>status := Cancelled\<rparr>]\<rparr>)"
    using handleWebhook_payment_captured
      [OF ev, of "example_db\<lparr>payments := [example_payment\<lparr>status := Cancelled\<rparr>]\<rparr>" 0]
    by (simp add: example_defs)
  moreover have "handleWebhook example_db (captured_event ''order_9'') =
     (Inr \<lparr>processed = True, wr_paymentId = Some ''pay_1'', wr_orderId = None,
           wr_event = None\<rparr>, example_db)"
    using handleWebhook_payment_captured [OF ev, of example_db 0]
    by (simp add: example_defs)
  ultimately show ?thesis by simp
qed

theorem handleWebhook_captured_without_entity:
  "razorpayOrderId (payments example_db ! 0) = ''order_1'' \<and>
   status (payments example_db ! 0) = Pending \<and>
   handleWebhook example_db
     \<lparr>event = ''payment.captured'',
      payload = \<lparr>payload_payment = Some None, payload_order = None\<rparr>\<rparr> =
   (Inl (''Webhook processing failed: '' @ cannot_read ''order_id''), example_db) \<and>
   (\<nexists>res d'. handleWebhook example_db
        \<lparr>event = ''payment.captured'',
         payload = \<lparr>payload_payment = Some None, payload_order = None\<rparr>\<rparr> = (Inr res, d'))"
  by (simp add: example_defs handleWebhook_def webhook_catch_def handlePaymentCaptured_def)

subsection \<open>Terminal states\<close>

text \<open>
  The webhook handlers and \<^verbatim>\<open>cancelPayment\<close> act on a pending record only: a record
  that is not pending keeps its status through them.
\<close>

lemma handlePaymentCaptured_keeps_terminal:
  assumes "j < length (payments d)" and "status (payments d ! j) \<noteq> Pending"
  shows "status (payments (snd (handlePaymentCaptured d ent)) ! j) = status (payments d ! j)"
proof (cases ent)
  case None
  then show ?thesis by (simp add: handlePaymentCaptured_def)
next
  case (Some pe)
  show ?thesis
  proof (cases "findOne (\<lambda>p. razorpayOrderId p = pe_order_id pe) d")
    case None
    with Some show ?thesis by (simp add: handlePaymentCaptured_def)
  next
    case f: (Some ip)
    obtain i p where ip: "ip = (i, p)" by (cases ip)
    from findOne_SomeD [OF f [unfolded ip]] have p: "p = payments d ! i" by simp
    show ?thesis
    proof (cases "status p = Pending")
      case True
      with p assms have "i \<noteq> j" by auto
      with Some f ip True show ?thesis
        by (simp add: handlePaymentCaptured_def Let_def payments_save_user
            payments_save_payment split: option.splits)
    next
      case False
      with Some f ip show ?thesis by (simp add: handlePaymentCaptured_def)
    qed
  qed
qed

lemma handlePaymentFailedWebhook_keeps_terminal:
  assumes "j < length (payments d)" and "status (payments d ! j) \<noteq> Pending"
  shows "status (payments (snd (handlePaymentFailedWebhook d ent)) ! j) =
         status (payments d ! j)"
proof (cases ent)
  case None
  then show ?thesis by (simp add: handlePaymentFailedWebhook_def)
next
  case (Some pe)
  show ?thesis
  proof (cases "findOne (\<lambda>p. razorpayOrderId p = pe_order_id pe) d")
    case None
    with Some show ?thesis by (simp add: handlePaymentFailedWebhook_def)
  next
    case f: (Some ip)
    obtain i p where ip: "ip = (i, p)" by (cases ip)
    from findOne_SomeD [OF f [unfolded ip]] have p: "p = payments d ! i" by simp
    show ?thesis
    proof (cases "status p = Pending")
      case True
      with p assms have "i \<noteq> j" by auto
      with Some f ip True show ?thesis
        by (simp add: handlePaymentFailedWebhook_def payments_save_payment)
    next
      case False
      with Some f ip show ?thesis by (simp add: handlePaymentFailedWebhook_def)
    qed
  qed
qed

lemma handleOrderPaid_keeps_status:
  assumes "j < length (payments d)"
  shows "status (payments (snd (handleOrderPaid d ent)) ! j) = status (payments d ! j)"
proof (cases ent)
  case None
  then show ?thesis by (simp add: handleOrderPaid_def)
next
  case (Some oe)
  show ?thesis
  proof (cases "findOne (\<lambda>p. razorpayOrderId p = oe_id oe) d")
    case None
    with Some show ?thesis by (simp add: handleOrderPaid_def)
  next
    case f: (Some ip)
    obtain i p where ip: "ip = (i, p)" by (cases ip)
    from findOne_SomeD [OF f [unfolded ip]] have p: "p = payments d ! i" by simp
    with Some f ip assms show ?thesis
      by (cases "i = j") (simp_all add: handleOrderPaid_def payments_save_payment)
  qed
qed

lemma handleWebhook_keeps_terminal:
  assumes "j < length (payments d)" and "status (payments d ! j) \<noteq> Pending"
  shows "status (payments (snd (handleWebhook d ev)) ! j) = status (payments d ! j)"
  using assms
  by (simp add: handleWebhook_def snd_webhook_catch Let_def
      handlePaymentCaptured_keeps_terminal handlePaymentFailedWebhook_keeps_terminal
      handleOrderPaid_keeps_status split: option.splits)

lemma cancelPayment_keeps_terminal:
  assumes "j < length (payments d)" and "status (payments d ! j) \<noteq> Pending"
  shows "status (payments (snd (cancelPayment d orderId uid)) ! j) = status (payments d ! j)"
proof (cases "findOne (\<lambda>p. razorpayOrderId p = orderId \<and> userId p = uid \<and> status p = Pending) d")
  case None
  then show ?thesis by (simp add: cancelPayment_def)
next
  case f: (Some ip)
  obtain i p where ip: "ip = (i, p)" by (cases ip)
  from findOne_SomeD [OF f [unfolded ip]]
  have "p = payments d ! i" and "status p = Pending" by auto
  with assms have "i \<noteq> j" by auto
  with f ip show ?thesis
    by (simp add: cancelPayment_def Let_def payments_save_payment)
qed

text \<open>
  Claim C1. Terminal states are meant to be sticky for every operation. The source does
  not keep that in \<^verbatim>\<open>verifyPayment\<close> and \<^verbatim>\<open>handlePaymentFailure\<close>, which lack the
  pending guard of the other paths: a valid proof of payment turns a failed record into
  a completed one (and grants premium), and an invalid one, or a reported failure, turns
  a completed record into a failed one.
\<close>

theorem terminal_states_overwritten:
  "verifyPayment example_service
     (example_db\<lparr>payments := [example_payment\<lparr>status := Failed,
         failureReason := Some ''Invalid payment signature''\<rparr>]\<rparr>) good_proof =
     (Inr \<lparr>vr_success = True, vr_paymentId = ''pay_1'', vr_orderId = ''order_1'',
           vr_planType = ''premium_monthly'', vr_amount = 99900, vr_currency = ''INR''\<rparr>,
      \<lparr>payments =
         [example_payment\<lparr>status := Completed,
            failureReason := Some ''Invalid payment signature'',
            razorpayPaymentId := Some ''pay_1'',
            razorpaySignature := Some ''mac:s3cret:order_1|pay_1''\<rparr>],
       users = [''u1'' \<mapsto> example_user\<lparr>isPremium := True\<rparr>,
                ''u2'' \<mapsto> example_user\<lparr>isPremium := True\<rparr>]\<rparr>) \<and>
   map status (payments (snd (verifyPayment example_service
     (example_db\<lparr>payments := [example_payment\<lparr>status := Completed,
         razorpayPaymentId := Some ''pay_1''\<rparr>]\<rparr>) bad_proof))) = [Failed] \<and>
   map status (payments (snd (handlePaymentFailure
     (example_db\<lparr>payments := [example_payment\<lparr>status := Completed,
         razorpayPaymentId := Some ''pay_1''\<rparr>]\<rparr>) ''order_1'' ''late report''))) = [Failed]"
  by (simp add: example_defs verifyPayment_def handlePaymentFailure_def verifySignature_def verifySignature_try_def
      findOne_def save_payment_def save_user_def markCompleted_def markFailed_def
      findById_def Let_def fun_upd_twist)

end
